theory Spec2Isabelle
  imports Main
begin

section \<open>Values imported from \<open>utils/recurrenceUtils\<close>\<close>

text \<open>
  The component \<open>EventListCardModals\<close> imports the enumerations \<open>Frequency\<close> and
  \<open>Days\<close>, and the three mutation-scope constants \<open>thisInstance\<close>,
  \<open>thisAndFollowingInstances\<close> and \<open>allInstances\<close>. Each is an enumeration of tags.
\<close>

datatype Frequency = DAILY | WEEKLY | MONTHLY | YEARLY

datatype WeekDays = SUNDAY | MONDAY | TUESDAY | WEDNESDAY | THURSDAY | FRIDAY | SATURDAY

datatype RecurringEventMutationType = thisInstance | thisAndFollowingInstances | allInstances

section \<open>Dates\<close>

text \<open>
  A JavaScript \<open>Date\<close>, seen through its local-time getters: \<open>getFullYear()\<close>,
  \<open>getMonth()\<close> (January is 0), \<open>getDate()\<close> (the day of the month), the weekday tag
  \<open>Days[getDay()]\<close>, and the milliseconds elapsed since local midnight.
\<close>

record JSDate =
  getFullYear :: nat
  getMonth :: nat
  getDate :: nat
  getDay :: WeekDays
  msOfDay :: nat

text \<open>Decimal digits of a natural number, most significant first (\<open>String(n)\<close>).\<close>

fun showNat :: "nat \<Rightarrow> string" where
  "showNat n =
     (if n < 10 then [''0123456789'' ! n]
      else showNat (n div 10) @ [''0123456789'' ! (n mod 10)])"

declare showNat.simps [simp del]

text \<open>\<open>String.prototype.padStart(n, c)\<close> for a one-character pad.\<close>

definition padStart :: "nat \<Rightarrow> char \<Rightarrow> string \<Rightarrow> string" where
  "padStart n c s = replicate (n - length s) c @ s"

text \<open>
  \<open>dayjs(d).format('YYYY-MM-DD')\<close>: the year padded to four digits, the month (counted
  from 1) and the day of the month padded to two, joined by hyphens. The time of day
  is not printed.
\<close>

definition formatYYYYMMDD :: "JSDate \<Rightarrow> string" where
  "formatYYYYMMDD d =
     padStart 4 CHR ''0'' (showNat (getFullYear d)) @ ''-'' @
     padStart 2 CHR ''0'' (showNat (getMonth d + 1)) @ ''-'' @
     padStart 2 CHR ''0'' (showNat (getDate d))"

text \<open>
  Reading a decimal numeral back: the value of a digit character and of a string of
  digits. They serve to show that the rendering of a date loses nothing but the time.
\<close>

definition digitValue :: "char \<Rightarrow> nat" where
  "digitValue c = of_char c - 48"

definition parseNat :: "string \<Rightarrow> nat" where
  "parseNat s = foldl (\<lambda>a c. 10 * a + digitValue c) 0 s"

text \<open>The calendar date of a \<open>Date\<close>: what is left when the time of day is ignored.\<close>

definition dateOnly :: "JSDate \<Rightarrow> nat \<times> nat \<times> nat" where
  "dateOnly d = (getFullYear d, getMonth d, getDate d)"

section \<open>Component state of \<open>EventListCardModals\<close>\<close>

text \<open>
  \<open>InterfaceRecurrenceRuleState\<close>: the recurrence rule being edited. \<open>recurrenceEndDate\<close>
  is a \<open>Date\<close> or \<open>null\<close>; \<open>count\<close> and \<open>weekDayOccurenceInMonth\<close> are a number or
  \<open>undefined\<close>.
\<close>

record InterfaceRecurrenceRuleState =
  recurrenceStartDate :: JSDate
  recurrenceEndDate :: "JSDate option"
  frequency :: Frequency
  weekDays :: "WeekDays list"
  interval :: int
  count :: "int option"
  weekDayOccurenceInMonth :: "int option"

text \<open>The text fields of the form (\<open>formState\<close>).\<close>

record FormState =
  title :: string
  eventdescrip :: string
  location :: string
  startTime :: string
  endTime :: string

text \<open>
  The persisted recurrence rule of an event (\<open>eventListCardProps.recurrenceRule\<close>), as
  the component reads it when the modal opens. Its dates are held as the \<open>Date\<close> that
  \<open>new Date(...)\<close> makes of them; the end date, the count and the occurrence in the
  month may be \<open>null\<close>.
\<close>

record InterfaceRecurrenceRule =
  rule_recurrenceStartDate :: JSDate
  rule_recurrenceEndDate :: "JSDate option"
  rule_frequency :: Frequency
  rule_weekDays :: "WeekDays list"
  rule_interval :: int
  rule_count :: "int option"
  rule_weekDayOccurenceInMonth :: "int option"

text \<open>
  The properties of the event card that the component reads (\<open>eventListCardProps\<close>).
  The persisted start and end dates are held as the \<open>Date\<close> that \<open>new Date(...)\<close> makes
  of them; \<open>attendees\<close> lists the attendees' \<open>_id\<close>s and may be absent, as may the two
  times and the recurrence rule; \<open>refetchEvents\<close> tells whether the optional callback
  was supplied.
\<close>

record InterfaceEventListCard =
  props_id :: string
  props_title :: string
  props_description :: string
  props_location :: string
  props_startDate :: JSDate
  props_endDate :: JSDate
  props_startTime :: "string option"
  props_endTime :: "string option"
  props_allDay :: bool
  props_recurring :: bool
  props_isPublic :: bool
  props_isRegisterable :: bool
  props_attendees :: "string list option"
  props_recurrenceRule :: "InterfaceRecurrenceRule option"
  props_refetchEvents :: bool

text \<open>
  One field for every \<open>useState\<close> cell of the component. \<open>isRegistered\<close> starts from
  \<open>attendees?.some(...)\<close>, which is \<open>undefined\<close> when there is no attendee list.
\<close>

record ModalState =
  alldaychecked :: bool
  recurringchecked :: bool
  publicchecked :: bool
  registrablechecked :: bool
  eventDeleteModalIsOpen :: bool
  recurringEventUpdateModalIsOpen :: bool
  eventStartDate :: JSDate
  eventEndDate :: JSDate
  recurrenceRuleState :: InterfaceRecurrenceRuleState
  formState :: FormState
  recurringEventDeleteType :: RecurringEventMutationType
  recurringEventUpdateType :: RecurringEventMutationType
  recurringEventUpdateOptions :: "RecurringEventMutationType list"
  shouldShowRecurringEventUpdateOptions :: bool
  recurrenceRuleChanged :: bool
  instanceDatesChanged :: bool
  isRegistered :: "bool option"

text \<open>\<open>time?.split('.')[0] || '08:00:00'\<close>: the part before the first dot, with a default
  for a missing or empty one.\<close>

definition timeOrDefault :: "string option \<Rightarrow> string" where
  "timeOrDefault t =
     (case t of
        None \<Rightarrow> ''08:00:00''
      | Some u \<Rightarrow>
          (let h = takeWhile (\<lambda>c. c \<noteq> CHR ''.'') u
           in if h = [] then ''08:00:00'' else h))"

text \<open>\<open>attendees?.some((attendee) => attendee._id === userId)\<close>; \<open>userId\<close> is what local
  storage holds, possibly nothing.\<close>

definition isInitiallyRegistered :: "InterfaceEventListCard \<Rightarrow> string option \<Rightarrow> bool option" where
  "isInitiallyRegistered props userId =
     (case props_attendees props of
        None \<Rightarrow> None
      | Some as \<Rightarrow> Some (list_ex (\<lambda>a. Some a = userId) as))"

text \<open>The state on mount: the initial value of each \<open>useState\<close>.\<close>

definition initialState :: "InterfaceEventListCard \<Rightarrow> string option \<Rightarrow> ModalState" where
  "initialState props userId =
     \<lparr> alldaychecked = props_allDay props,
       recurringchecked = props_recurring props,
       publicchecked = props_isPublic props,
       registrablechecked = props_isRegisterable props,
       eventDeleteModalIsOpen = False,
       recurringEventUpdateModalIsOpen = False,
       eventStartDate = props_startDate props,
       eventEndDate = props_endDate props,
       recurrenceRuleState =
         \<lparr> recurrenceStartDate = props_startDate props,
           recurrenceEndDate = None,
           frequency = WEEKLY,
           weekDays = [getDay (props_startDate props)],
           interval = 1,
           count = None,
           weekDayOccurenceInMonth = None \<rparr>,
       formState =
         \<lparr> title = props_title props,
           eventdescrip = props_description props,
           location = props_location props,
           startTime = timeOrDefault (props_startTime props),
           endTime = timeOrDefault (props_endTime props) \<rparr>,
       recurringEventDeleteType = thisInstance,
       recurringEventUpdateType = thisInstance,
       recurringEventUpdateOptions = [thisInstance, thisAndFollowingInstances, allInstances],
       shouldShowRecurringEventUpdateOptions = True,
       recurrenceRuleChanged = False,
       instanceDatesChanged = False,
       isRegistered = isInitiallyRegistered props userId \<rparr>"


section \<open>The scope-options effect\<close>

text \<open>
  The effect that runs whenever \<open>recurrenceRuleChanged\<close> or \<open>instanceDatesChanged\<close>
  changes. Its four \<open>if\<close> statements run in sequence, each on the state the previous
  ones left, and each testing the two flags of the render that scheduled the effect; the
  third sets the update type and the visibility flag only.
\<close>

definition scopeOptionsEffect :: "ModalState \<Rightarrow> ModalState" where
  "scopeOptionsEffect s0 =
     (let s1 = (if instanceDatesChanged s0
                then s0\<lparr> recurringEventUpdateType := thisInstance,
                         recurringEventUpdateOptions := [thisInstance, thisAndFollowingInstances],
                         shouldShowRecurringEventUpdateOptions := True \<rparr>
                else s0);
          s2 = (if recurrenceRuleChanged s0
                then s1\<lparr> recurringEventUpdateType := thisAndFollowingInstances,
                         recurringEventUpdateOptions := [thisAndFollowingInstances, allInstances],
                         shouldShowRecurringEventUpdateOptions := True \<rparr>
                else s1);
          s3 = (if recurrenceRuleChanged s0 \<and> instanceDatesChanged s0
                then s2\<lparr> recurringEventUpdateType := thisAndFollowingInstances,
                         shouldShowRecurringEventUpdateOptions := False \<rparr>
                else s2);
          s4 = (if \<not> recurrenceRuleChanged s0 \<and> \<not> instanceDatesChanged s0
                then s3\<lparr> recurringEventUpdateType := thisInstance,
                         recurringEventUpdateOptions :=
                           [thisInstance, thisAndFollowingInstances, allInstances],
                         shouldShowRecurringEventUpdateOptions := True \<rparr>
                else s3)
      in s4)"

text \<open>
  A form change, as far as the scope is concerned. The change-detection effect stores
  the results of \<open>haveInstanceDatesChanged\<close> and \<open>hasRecurrenceRuleChanged\<close>, here the two
  parameters, in \<open>instanceDatesChanged\<close> and \<open>recurrenceRuleChanged\<close>. These two cells
  are the dependencies of the scope-options effect, which runs after the render only
  if one of them has changed; otherwise the state stays as it is, with whatever scope
  the user has picked in the options modal.
\<close>

definition setChangeFlags :: "bool \<Rightarrow> bool \<Rightarrow> ModalState \<Rightarrow> ModalState" where
  "setChangeFlags datesChanged ruleChanged s =
     (if datesChanged = instanceDatesChanged s \<and> ruleChanged = recurrenceRuleChanged s
      then s\<lparr> instanceDatesChanged := datesChanged, recurrenceRuleChanged := ruleChanged \<rparr>
      else scopeOptionsEffect
             (s\<lparr> instanceDatesChanged := datesChanged, recurrenceRuleChanged := ruleChanged \<rparr>))"

text \<open>
  The scopes that submitting a recurring event offers (\<open>handleEventUpdate\<close>): when the
  options are shown, the list handed to the options modal; when they are hidden, the
  selected update type alone, with which the update goes out at once.
\<close>

definition offeredScopes :: "ModalState \<Rightarrow> RecurringEventMutationType list" where
  "offeredScopes s =
     (if shouldShowRecurringEventUpdateOptions s then recurringEventUpdateOptions s
      else [recurringEventUpdateType s])"

text \<open>The edit-scope decision that a state holds, in the specification's vocabulary.\<close>

record EditScopeDecision =
  availableScopes :: "RecurringEventMutationType list"
  defaultScope :: RecurringEventMutationType
  requiresUserChoice :: bool

definition editScopeDecision :: "ModalState \<Rightarrow> EditScopeDecision" where
  "editScopeDecision s =
     \<lparr> availableScopes = offeredScopes s,
       defaultScope = recurringEventUpdateType s,
       requiresUserChoice = shouldShowRecurringEventUpdateOptions s \<rparr>"

text \<open>The decision table as the specification words it (section 4.3), row by row.\<close>

definition deriveScopeOptions :: "bool \<Rightarrow> bool \<Rightarrow> EditScopeDecision" where
  "deriveScopeOptions datesChanged ruleChanged =
     (if \<not> datesChanged \<and> \<not> ruleChanged then
        \<lparr> availableScopes = [thisInstance, thisAndFollowingInstances, allInstances],
          defaultScope = thisInstance, requiresUserChoice = True \<rparr>
      else if datesChanged \<and> \<not> ruleChanged then
        \<lparr> availableScopes = [thisInstance, thisAndFollowingInstances],
          defaultScope = thisInstance, requiresUserChoice = True \<rparr>
      else if \<not> datesChanged \<and> ruleChanged then
        \<lparr> availableScopes = [thisAndFollowingInstances, allInstances],
          defaultScope = thisAndFollowingInstances, requiresUserChoice = True \<rparr>
      else
        \<lparr> availableScopes = [thisAndFollowingInstances],
          defaultScope = thisAndFollowingInstances, requiresUserChoice = False \<rparr>)"

section \<open>Submitting an update\<close>

text \<open>A payload field that may hold \<open>null\<close>; an omitted (\<open>undefined\<close>) field is \<open>None\<close>.\<close>

datatype 'a Nullable = Null | Present 'a

text \<open>The \<open>variables\<close> object passed to the update mutation.\<close>

record UpdateEventVariables =
  v_id :: string
  v_title :: string
  v_description :: string
  v_isPublic :: bool
  v_recurring :: bool
  v_recurringEventUpdateType :: "RecurringEventMutationType option"
  v_isRegisterable :: bool
  v_allDay :: bool
  v_startDate :: string
  v_endDate :: string
  v_location :: string
  v_startTime :: "string option"
  v_endTime :: "string option"
  v_recurrenceStartDate :: "string option"
  v_recurrenceEndDate :: "string Nullable option"
  v_frequency :: "Frequency option"
  v_weekDays :: "WeekDays list option"
  v_interval :: "int option"
  v_count :: "int option"
  v_weekDayOccurenceInMonth :: "int option"

text \<open>JavaScript truthiness of a \<open>number | undefined\<close>: \<open>undefined\<close> and \<open>0\<close> are falsy.\<close>

definition truthyNumber :: "int option \<Rightarrow> bool" where
  "truthyNumber v = (case v of None \<Rightarrow> False | Some n \<Rightarrow> n \<noteq> 0)"

definition updateEventVariables :: "InterfaceEventListCard \<Rightarrow> ModalState \<Rightarrow> UpdateEventVariables" where
  "updateEventVariables props s =
     (let rs = recurrenceRuleState s in
      \<lparr> v_id = props_id props,
        v_title = title (formState s),
        v_description = eventdescrip (formState s),
        v_isPublic = publicchecked s,
        v_recurring = recurringchecked s,
        v_recurringEventUpdateType =
          (if recurringchecked s then Some (recurringEventUpdateType s) else None),
        v_isRegisterable = registrablechecked s,
        v_allDay = alldaychecked s,
        v_startDate = formatYYYYMMDD (eventStartDate s),
        v_endDate = formatYYYYMMDD (eventEndDate s),
        v_location = location (formState s),
        v_startTime = (if \<not> alldaychecked s then Some (startTime (formState s)) else None),
        v_endTime = (if \<not> alldaychecked s then Some (endTime (formState s)) else None),
        v_recurrenceStartDate =
          (if recurringchecked s
           then (if recurringEventUpdateType s = thisAndFollowingInstances \<and>
                    (instanceDatesChanged s \<or> recurrenceRuleChanged s)
                 then Some (formatYYYYMMDD (eventStartDate s))
                 else Some (formatYYYYMMDD (recurrenceStartDate rs)))
           else None),
        v_recurrenceEndDate =
          (if recurringchecked s
           then (case recurrenceEndDate rs of
                   Some d \<Rightarrow> Some (Present (formatYYYYMMDD d))
                 | None \<Rightarrow> Some Null)
           else None),
        v_frequency = (if recurringchecked s then Some (frequency rs) else None),
        v_weekDays =
          (if recurringchecked s \<and>
              (frequency rs = WEEKLY \<or>
               (frequency rs = MONTHLY \<and> truthyNumber (weekDayOccurenceInMonth rs)))
           then Some (weekDays rs)
           else None),
        v_interval = (if recurringchecked s then Some (interval rs) else None),
        v_count = (if recurringchecked s then count rs else None),
        v_weekDayOccurenceInMonth =
          (if recurringchecked s then weekDayOccurenceInMonth rs else None) \<rparr>)"

text \<open>
  What a handler does to the world outside the component state, in order: the
  mutations it invokes, the toasts, and the callbacks it calls.
\<close>

datatype Effect =
    UpdateEventMutation UpdateEventVariables
  | RegisterEventMutation string
  | ToastSuccess string
  | HideViewModal
  | RefetchEvents
  | ErrorHandler

text \<open>How an awaited mutation ends: with data, without data, or by throwing.\<close>

datatype MutationResult = Data | NoData | Rejected

text \<open>\<open>updateEventHandler\<close>; \<open>t\<close> is the translation function, \<open>res\<close> the mutation's
  outcome.\<close>

definition updateEventHandler ::
  "(string \<Rightarrow> string) \<Rightarrow> InterfaceEventListCard \<Rightarrow> MutationResult \<Rightarrow> ModalState
     \<Rightarrow> ModalState \<times> Effect list" where
  "updateEventHandler t props res s =
     (case res of
        Data \<Rightarrow>
          (s\<lparr> recurringEventUpdateModalIsOpen := False \<rparr>,
           [UpdateEventMutation (updateEventVariables props s),
            ToastSuccess (t ''eventUpdated''), HideViewModal]
           @ (if props_refetchEvents props then [RefetchEvents] else []))
      | NoData \<Rightarrow> (s, [UpdateEventMutation (updateEventVariables props s)])
      | Rejected \<Rightarrow> (s, [UpdateEventMutation (updateEventVariables props s), ErrorHandler]))"

text \<open>\<open>handleEventUpdate\<close>: the submit button of the form.\<close>

definition handleEventUpdate ::
  "(string \<Rightarrow> string) \<Rightarrow> InterfaceEventListCard \<Rightarrow> MutationResult \<Rightarrow> ModalState
     \<Rightarrow> ModalState \<times> Effect list" where
  "handleEventUpdate t props res s =
     (if \<not> props_recurring props then updateEventHandler t props res s
      else if shouldShowRecurringEventUpdateOptions s
      then (s\<lparr> recurringEventUpdateModalIsOpen := True \<rparr>, [])
      else updateEventHandler t props res s)"

text \<open>\<open>registerEventHandler\<close>: \<open>!isRegistered\<close> holds for \<open>false\<close> and for \<open>undefined\<close>.\<close>

definition registerEventHandler ::
  "InterfaceEventListCard \<Rightarrow> MutationResult \<Rightarrow> ModalState \<Rightarrow> ModalState \<times> Effect list" where
  "registerEventHandler props res s =
     (if isRegistered s \<noteq> Some True then
        (case res of
           Data \<Rightarrow>
             (s\<lparr> isRegistered := Some True \<rparr>,
              [RegisterEventMutation (props_id props),
               ToastSuccess (''Successfully registered for '' @ props_title props),
               HideViewModal])
         | NoData \<Rightarrow> (s, [RegisterEventMutation (props_id props)])
         | Rejected \<Rightarrow> (s, [RegisterEventMutation (props_id props), ErrorHandler]))
      else (s, []))"

text \<open>The payloads of the update mutations among a handler's effects, and the events
  that a handler asked to register for.\<close>

fun submitted :: "Effect list \<Rightarrow> UpdateEventVariables list" where
  "submitted [] = []"
| "submitted (UpdateEventMutation v # es) = v # submitted es"
| "submitted (e # es) = submitted es"

fun registrations :: "Effect list \<Rightarrow> string list" where
  "registrations [] = []"
| "registrations (RegisterEventMutation i # es) = i # registrations es"
| "registrations (e # es) = registrations es"

section \<open>The change detector\<close>

text \<open>
  The component calls \<open>haveInstanceDatesChanged\<close> and \<open>hasRecurrenceRuleChanged\<close> of
  \<open>utils/recurrenceUtils\<close>, a module that is not among the sources. This section models
  the two predicates from the specification.
\<close>

text \<open>
  Modelled from the spec: \<open>haveInstanceDatesChanged\<close> of \<open>utils/recurrenceUtils\<close> is
  called by the component but is not among the sources. Section 4.2: true iff either
  date differs, under a date-only comparison that ignores the time of day.
\<close>

definition haveInstanceDatesChanged :: "JSDate \<Rightarrow> JSDate \<Rightarrow> JSDate \<Rightarrow> JSDate \<Rightarrow> bool" where
  "haveInstanceDatesChanged originalStart originalEnd editedStart editedEnd =
     (dateOnly originalStart \<noteq> dateOnly editedStart \<or>
      dateOnly originalEnd \<noteq> dateOnly editedEnd)"

text \<open>
  Modelled from the spec: \<open>hasRecurrenceRuleChanged\<close> of \<open>utils/recurrenceUtils\<close> is
  called by the component but is not among the sources. Section 4.2: true when exactly
  one of the two rules is absent, or when the rules differ in at least one of
  \<open>frequency\<close>, \<open>interval\<close>, \<open>weekDays\<close> (as a set), \<open>recurrenceEndDate\<close> (a calendar
  date or absent), \<open>count\<close> and \<open>weekDayOccurrenceInMonth\<close>. \<open>recurrenceStartDate\<close> is
  not compared. With both rules absent neither condition holds.
\<close>

definition hasRecurrenceRuleChanged ::
  "InterfaceRecurrenceRuleState option \<Rightarrow> InterfaceRecurrenceRuleState option \<Rightarrow> bool" where
  "hasRecurrenceRuleChanged originalRule editedRule =
     (case (originalRule, editedRule) of
        (None, None) \<Rightarrow> False
      | (None, Some e) \<Rightarrow> True
      | (Some r, None) \<Rightarrow> True
      | (Some r, Some e) \<Rightarrow>
          frequency r \<noteq> frequency e \<or>
          interval r \<noteq> interval e \<or>
          set (weekDays r) \<noteq> set (weekDays e) \<or>
          map_option dateOnly (recurrenceEndDate r) \<noteq> map_option dateOnly (recurrenceEndDate e) \<or>
          count r \<noteq> count e \<or>
          weekDayOccurenceInMonth r \<noteq> weekDayOccurenceInMonth e)"

section \<open>Concrete events and states\<close>

text \<open>A concrete event and the state it opens with, for evaluating the definitions.\<close>

definition exampleDate :: JSDate where
  "exampleDate =
     \<lparr> getFullYear = 2024, getMonth = 0, getDate = 8, getDay = MONDAY, msOfDay = 32400000 \<rparr>"

definition exampleProps :: InterfaceEventListCard where
  "exampleProps =
     \<lparr> props_id = ''event1'',
       props_title = ''Standup'',
       props_description = ''Weekly standup'',
       props_location = ''Room 1'',
       props_startDate = exampleDate,
       props_endDate = exampleDate,
       props_startTime = Some ''09:00:00.000Z'',
       props_endTime = Some ''10:00:00.000Z'',
       props_allDay = False,
       props_recurring = True,
       props_isPublic = True,
       props_isRegisterable = True,
       props_attendees = Some [''user1'', ''user2''],
       props_recurrenceRule =
         Some \<lparr> rule_recurrenceStartDate = exampleDate,
                rule_recurrenceEndDate = None,
                rule_frequency = WEEKLY,
                rule_weekDays = [MONDAY],
                rule_interval = 1,
                rule_count = None,
                rule_weekDayOccurenceInMonth = None \<rparr>,
       props_refetchEvents = True \<rparr>"

definition exampleState :: ModalState where
  "exampleState = initialState exampleProps (Some ''user1'')"

text \<open>The instance moved from 8 to 15 January.\<close>

definition editedDate :: JSDate where
  "editedDate = exampleDate\<lparr> getDate := 15, msOfDay := 0 \<rparr>"

text \<open>The dates of the instance were edited, and the user picked \<open>this and following\<close>
  among the two options then offered.\<close>

definition splitState :: ModalState where
  "splitState =
     (setChangeFlags True False
        (exampleState\<lparr> eventStartDate := editedDate, eventEndDate := editedDate \<rparr>))
     \<lparr> recurringEventUpdateType := thisAndFollowingInstances \<rparr>"

text \<open>Both the dates and the rule were edited; and the same with the recurring box
  unchecked first.\<close>

definition bothChangedState :: ModalState where
  "bothChangedState = setChangeFlags True True exampleState"

definition uncheckedBothChangedState :: ModalState where
  "uncheckedBothChangedState =
     setChangeFlags True True (exampleState\<lparr> recurringchecked := False \<rparr>)"

text \<open>The recurring box unchecked; and, besides, the all-day box checked.\<close>

definition nonRecurringState :: ModalState where
  "nonRecurringState = exampleState\<lparr> recurringchecked := False \<rparr>"

definition allDayNonRecurringState :: ModalState where
  "allDayNonRecurringState = exampleState\<lparr> alldaychecked := True, recurringchecked := False \<rparr>"



text \<open>The rule the example opens with, and the same rule starting a week later with its
  weekday listed twice.\<close>

definition exampleRule :: InterfaceRecurrenceRuleState where
  "exampleRule = recurrenceRuleState exampleState"

definition shiftedRule :: InterfaceRecurrenceRuleState where
  "shiftedRule = exampleRule\<lparr> recurrenceStartDate := editedDate, weekDays := [MONDAY, MONDAY] \<rparr>"

section \<open>Auxiliary facts\<close>

subsection \<open>What the scope-options effect leaves in the state\<close>

lemma scopeOptionsEffect_type:
  "recurringEventUpdateType (scopeOptionsEffect s) =
     (if recurrenceRuleChanged s then thisAndFollowingInstances else thisInstance)"
  by (simp add: scopeOptionsEffect_def Let_def)

lemma scopeOptionsEffect_options:
  "recurringEventUpdateOptions (scopeOptionsEffect s) =
     (if recurrenceRuleChanged s then [thisAndFollowingInstances, allInstances]
      else if instanceDatesChanged s then [thisInstance, thisAndFollowingInstances]
      else [thisInstance, thisAndFollowingInstances, allInstances])"
  by (simp add: scopeOptionsEffect_def Let_def)

lemma scopeOptionsEffect_show:
  "shouldShowRecurringEventUpdateOptions (scopeOptionsEffect s) =
     (\<not> (recurrenceRuleChanged s \<and> instanceDatesChanged s))"
  by (simp add: scopeOptionsEffect_def Let_def)

lemma scopeOptionsEffect_offered:
  "offeredScopes (scopeOptionsEffect s) =
     (if recurrenceRuleChanged s \<and> instanceDatesChanged s then [thisAndFollowingInstances]
      else if recurrenceRuleChanged s then [thisAndFollowingInstances, allInstances]
      else if instanceDatesChanged s then [thisInstance, thisAndFollowingInstances]
      else [thisInstance, thisAndFollowingInstances, allInstances])"
  by (simp add: offeredScopes_def scopeOptionsEffect_type scopeOptionsEffect_options
      scopeOptionsEffect_show)

lemma scopeOptionsEffect_decision:
  "editScopeDecision (scopeOptionsEffect s) =
     deriveScopeOptions (instanceDatesChanged s) (recurrenceRuleChanged s)"
  by (simp add: editScopeDecision_def deriveScopeOptions_def scopeOptionsEffect_offered
      scopeOptionsEffect_type scopeOptionsEffect_show)

lemma scopeOptionsEffect_flags:
  "instanceDatesChanged (scopeOptionsEffect s) = instanceDatesChanged s \<and>
   recurrenceRuleChanged (scopeOptionsEffect s) = recurrenceRuleChanged s \<and>
   recurringchecked (scopeOptionsEffect s) = recurringchecked s"
  by (simp add: scopeOptionsEffect_def Let_def)

text \<open>
  While the options are hidden, the list in \<open>recurringEventUpdateOptions\<close> is the one
  that the rule-changed branch stored; nothing shows it.
\<close>

lemma scopeOptionsEffect_hidden_list:
  "recurrenceRuleChanged s \<Longrightarrow> instanceDatesChanged s \<Longrightarrow>
     recurringEventUpdateOptions (scopeOptionsEffect s) =
       [thisAndFollowingInstances, allInstances] \<and>
     \<not> shouldShowRecurringEventUpdateOptions (scopeOptionsEffect s)"
  by (simp add: scopeOptionsEffect_options scopeOptionsEffect_show)

subsection \<open>The date rendering determines the calendar date, and nothing more\<close>

lemma formatYYYYMMDD_msOfDay:
  "formatYYYYMMDD (d\<lparr> msOfDay := ms \<rparr>) = formatYYYYMMDD d"
  by (simp add: formatYYYYMMDD_def)

lemma lt10_cases:
  "(k::nat) < 10 \<Longrightarrow>
     k = 0 \<or> k = 1 \<or> k = 2 \<or> k = 3 \<or> k = 4 \<or> k = 5 \<or> k = 6 \<or> k = 7 \<or> k = 8 \<or> k = 9"
  by arith

lemma digitValue_digit: "k < 10 \<Longrightarrow> digitValue (''0123456789'' ! k) = k"
  using lt10_cases [of k] by (auto simp add: digitValue_def)

lemma digit_not_hyphen: "k < 10 \<Longrightarrow> ''0123456789'' ! k \<noteq> CHR ''-''"
  using lt10_cases [of k] by auto

lemma parseNat_snoc: "parseNat (xs @ [c]) = 10 * parseNat xs + digitValue c"
  by (simp add: parseNat_def)

lemma parseNat_showNat: "parseNat (showNat n) = n"
proof (induction n rule: showNat.induct)
  case (1 n)
  show ?case
  proof (cases "n < 10")
    case True
    then show ?thesis
      by (subst showNat.simps) (simp add: parseNat_def digitValue_digit)
  next
    case False
    then have "parseNat (showNat (n div 10)) = n div 10"
      using "1.IH" by simp
    with False show ?thesis
      by (subst showNat.simps) (simp add: parseNat_snoc digitValue_digit)
  qed
qed

lemma parseNat_zeros: "parseNat (replicate j CHR ''0'' @ s) = parseNat s"
proof -
  have "foldl (\<lambda>a c. 10 * a + digitValue c) 0 (replicate j CHR ''0'') = 0"
    by (induction j) (simp_all add: digitValue_def)
  then show ?thesis
    by (simp add: parseNat_def)
qed

lemma parseNat_padStart: "parseNat (padStart k CHR ''0'' (showNat n)) = n"
  by (simp add: padStart_def parseNat_zeros parseNat_showNat)

lemma hyphen_notin_showNat: "CHR ''-'' \<notin> set (showNat n)"
proof (induction n rule: showNat.induct)
  case (1 n)
  show ?case
  proof (cases "n < 10")
    case True
    then show ?thesis
      using digit_not_hyphen [of n] by (subst showNat.simps) auto
  next
    case False
    then have "CHR ''-'' \<notin> set (showNat (n div 10))"
      using "1.IH" by simp
    moreover have "''0123456789'' ! (n mod 10) \<noteq> CHR ''-''"
      by (rule digit_not_hyphen) simp
    ultimately show ?thesis
      using False by (subst showNat.simps) auto
  qed
qed

lemma hyphen_notin_padStart: "CHR ''-'' \<notin> set (padStart k CHR ''0'' (showNat n))"
  by (simp add: padStart_def hyphen_notin_showNat)

lemma split_at_hyphen:
  assumes "xs @ CHR ''-'' # r = ys @ CHR ''-'' # q"
    and "CHR ''-'' \<notin> set xs" and "CHR ''-'' \<notin> set ys"
  shows "xs = ys \<and> r = q"
  using assms
proof (induction xs arbitrary: ys)
  case Nil
  then show ?case by (cases ys) auto
next
  case (Cons x xs)
  then show ?case by (cases ys) auto
qed

lemma formatYYYYMMDD_eq_iff:
  "(formatYYYYMMDD a = formatYYYYMMDD b) = (dateOnly a = dateOnly b)"
proof
  assume eq: "formatYYYYMMDD a = formatYYYYMMDD b"
  let ?Y = "\<lambda>d. padStart 4 CHR ''0'' (showNat (getFullYear d))"
  let ?M = "\<lambda>d. padStart 2 CHR ''0'' (showNat (getMonth d + 1))"
  let ?D = "\<lambda>d. padStart 2 CHR ''0'' (showNat (getDate d))"
  from eq have "?Y a @ CHR ''-'' # (?M a @ CHR ''-'' # ?D a) =
      ?Y b @ CHR ''-'' # (?M b @ CHR ''-'' # ?D b)"
    by (simp add: formatYYYYMMDD_def)
  then have y: "?Y a = ?Y b" and rest: "?M a @ CHR ''-'' # ?D a = ?M b @ CHR ''-'' # ?D b"
    using split_at_hyphen [OF _ hyphen_notin_padStart hyphen_notin_padStart] by blast+
  from rest have m: "?M a = ?M b" and d: "?D a = ?D b"
    using split_at_hyphen [OF _ hyphen_notin_padStart hyphen_notin_padStart] by blast+
  from y have "getFullYear a = getFullYear b"
    by (metis parseNat_padStart)
  moreover from m have "getMonth a + 1 = getMonth b + 1"
    by (metis parseNat_padStart)
  moreover from d have "getDate a = getDate b"
    by (metis parseNat_padStart)
  ultimately show "dateOnly a = dateOnly b"
    by (simp add: dateOnly_def)
next
  assume "dateOnly a = dateOnly b"
  then show "formatYYYYMMDD a = formatYYYYMMDD b"
    by (simp add: dateOnly_def formatYYYYMMDD_def)
qed

subsection \<open>Handlers\<close>

lemma submitted_updateEventHandler:
  "submitted (snd (updateEventHandler t props res s)) = [updateEventVariables props s]"
  by (cases res) (simp_all add: updateEventHandler_def)

text \<open>
  What a submit of a recurring event, with its recurring box checked, offers: either
  the options modal is opened on \<open>recurringEventUpdateOptions\<close> and nothing is sent, or
  the update is sent with the selected scope; in both cases the scopes within reach are
  \<open>offeredScopes\<close>.
\<close>

lemma handleEventUpdate_offers:
  assumes "props_recurring props" and "recurringchecked s"
  shows "handleEventUpdate t props res s =
      (if shouldShowRecurringEventUpdateOptions s
       then (s\<lparr> recurringEventUpdateModalIsOpen := True \<rparr>, [])
       else updateEventHandler t props res s) \<and>
    (if shouldShowRecurringEventUpdateOptions s
     then recurringEventUpdateOptions (fst (handleEventUpdate t props res s)) = offeredScopes s
     else map v_recurringEventUpdateType (submitted (snd (handleEventUpdate t props res s))) =
            map Some (offeredScopes s))"
  using assms
  by (simp add: handleEventUpdate_def offeredScopes_def submitted_updateEventHandler
      updateEventVariables_def Let_def)

text \<open>The two ways in which \<open>isRegistered\<close> comes to be true.\<close>

lemma isRegistered_initially:
  "props_attendees props = Some as \<Longrightarrow> userId \<in> set as \<Longrightarrow>
     isRegistered (initialState props (Some userId)) = Some True"
  by (auto simp add: initialState_def isInitiallyRegistered_def list_ex_iff)

lemma isRegistered_after_success:
  "isRegistered (fst (registerEventHandler props Data s)) = Some True"
  by (simp add: registerEventHandler_def)

section \<open>The edit-scope decision\<close>

text \<open>
  Claim C1. Whenever the scope-options effect runs, the decision it leaves is the row
  of the table of section 4.3 for the two change flags: the scopes offered
  (availableScopes), the selected scope (defaultScope) and whether the options are
  shown (requiresUserChoice). A form change that alters one of the two flags runs the
  effect and so yields the row of the new pair; one that alters neither leaves the
  decision as it was. In particular, with both flags true the only scope offered is
  thisAndFollowingInstances, it is the selected one, and the options are not shown.
\<close>

theorem scopeOptions_table:
  "editScopeDecision (scopeOptionsEffect s) =
     deriveScopeOptions (instanceDatesChanged s) (recurrenceRuleChanged s) \<and>
   editScopeDecision (setChangeFlags datesChanged ruleChanged s) =
     (if datesChanged = instanceDatesChanged s \<and> ruleChanged = recurrenceRuleChanged s
      then editScopeDecision s
      else deriveScopeOptions datesChanged ruleChanged) \<and>
   editScopeDecision
     (scopeOptionsEffect (s\<lparr> instanceDatesChanged := True, recurrenceRuleChanged := True \<rparr>)) =
     \<lparr> availableScopes = [thisAndFollowingInstances],
       defaultScope = thisAndFollowingInstances,
       requiresUserChoice = False \<rparr>"
proof -
  have run: "\<And>u. editScopeDecision (scopeOptionsEffect u) =
      deriveScopeOptions (instanceDatesChanged u) (recurrenceRuleChanged u)"
    by (rule scopeOptionsEffect_decision)
  have kept: "editScopeDecision
      (s\<lparr> instanceDatesChanged := instanceDatesChanged s,
           recurrenceRuleChanged := recurrenceRuleChanged s \<rparr>) = editScopeDecision s"
    by (simp add: editScopeDecision_def offeredScopes_def)
  have change: "editScopeDecision (setChangeFlags datesChanged ruleChanged s) =
      (if datesChanged = instanceDatesChanged s \<and> ruleChanged = recurrenceRuleChanged s
       then editScopeDecision s
       else deriveScopeOptions datesChanged ruleChanged)"
  proof (cases "datesChanged = instanceDatesChanged s \<and> ruleChanged = recurrenceRuleChanged s")
    case True
    then show ?thesis
      using kept by (simp add: setChangeFlags_def)
  next
    case False
    then have "setChangeFlags datesChanged ruleChanged s =
        scopeOptionsEffect
          (s\<lparr> instanceDatesChanged := datesChanged, recurrenceRuleChanged := ruleChanged \<rparr>)"
      by (auto simp add: setChangeFlags_def)
    then have "editScopeDecision (setChangeFlags datesChanged ruleChanged s) =
        deriveScopeOptions datesChanged ruleChanged"
      by (simp add: run)
    moreover have "(if datesChanged = instanceDatesChanged s \<and> ruleChanged = recurrenceRuleChanged s
        then editScopeDecision s
        else deriveScopeOptions datesChanged ruleChanged) =
        deriveScopeOptions datesChanged ruleChanged"
      using False by (rule if_not_P)
    ultimately show ?thesis
      by (simp only:)
  qed
  have both: "editScopeDecision
      (scopeOptionsEffect (s\<lparr> instanceDatesChanged := True, recurrenceRuleChanged := True \<rparr>)) =
      \<lparr> availableScopes = [thisAndFollowingInstances],
        defaultScope = thisAndFollowingInstances,
        requiresUserChoice = False \<rparr>"
    by (simp add: run deriveScopeOptions_def)
  from run change both show ?thesis
    by simp
qed

text \<open>
  Claim C4. In the initial state of an edit session, and after every run of the
  scope-options effect (from any state, whatever the two change flags are), the selected
  scope recurringEventUpdateType is an element of recurringEventUpdateOptions, and
  recurringEventUpdateOptions is not empty.
\<close>

theorem defaultScope_among_availableScopes:
  "recurringEventUpdateType (initialState props userId)
     \<in> set (recurringEventUpdateOptions (initialState props userId)) \<and>
   recurringEventUpdateOptions (initialState props userId) \<noteq> [] \<and>
   recurringEventUpdateType (scopeOptionsEffect s)
     \<in> set (recurringEventUpdateOptions (scopeOptionsEffect s)) \<and>
   recurringEventUpdateOptions (scopeOptionsEffect s) \<noteq> []"
  by (simp add: initialState_def scopeOptionsEffect_type scopeOptionsEffect_options)

text \<open>
  Claim C2, as the code has it. After every run of the scope-options effect,
  requiresUserChoice (shouldShowRecurringEventUpdateOptions) is true exactly when more
  than one scope is offered. On submit of an event that is recurring, the options modal
  is opened, and nothing else done, exactly when requiresUserChoice is true; otherwise
  the update handler runs at once and invokes the update mutation once, with the
  inferred scope thisAndFollowingInstances when the recurring box is checked and with
  no scope when it has been unchecked.
\<close>

theorem handleEventUpdate_after_recompute:
  assumes "props_recurring props"
  shows "shouldShowRecurringEventUpdateOptions (scopeOptionsEffect s) =
      (1 < length (offeredScopes (scopeOptionsEffect s))) \<and>
    handleEventUpdate t props res (scopeOptionsEffect s) =
      (if shouldShowRecurringEventUpdateOptions (scopeOptionsEffect s)
       then ((scopeOptionsEffect s)\<lparr> recurringEventUpdateModalIsOpen := True \<rparr>, [])
       else updateEventHandler t props res (scopeOptionsEffect s)) \<and>
    (snd (handleEventUpdate t props res (scopeOptionsEffect s)) = []) =
      shouldShowRecurringEventUpdateOptions (scopeOptionsEffect s) \<and>
    map v_recurringEventUpdateType
        (submitted (snd (handleEventUpdate t props res (scopeOptionsEffect s)))) =
      (if shouldShowRecurringEventUpdateOptions (scopeOptionsEffect s) then []
       else [if recurringchecked s then Some thisAndFollowingInstances else None])"
proof -
  let ?s' = "scopeOptionsEffect s"
  have choice: "shouldShowRecurringEventUpdateOptions ?s' = (1 < length (offeredScopes ?s'))"
    by (simp add: scopeOptionsEffect_offered scopeOptionsEffect_show)
  have gate: "handleEventUpdate t props res ?s' =
      (if shouldShowRecurringEventUpdateOptions ?s'
       then (?s'\<lparr> recurringEventUpdateModalIsOpen := True \<rparr>, [])
       else updateEventHandler t props res ?s')"
    using assms by (simp add: handleEventUpdate_def)
  have invoked: "snd (updateEventHandler t props res ?s') \<noteq> []"
    by (cases res) (simp_all add: updateEventHandler_def)
  have quiet: "(snd (handleEventUpdate t props res ?s') = []) =
      shouldShowRecurringEventUpdateOptions ?s'"
    using invoked by (simp add: gate)
  have scope: "\<not> shouldShowRecurringEventUpdateOptions ?s' \<Longrightarrow>
      v_recurringEventUpdateType (updateEventVariables props ?s') =
        (if recurringchecked s then Some thisAndFollowingInstances else None)"
    by (simp add: updateEventVariables_def Let_def scopeOptionsEffect_flags
        scopeOptionsEffect_type scopeOptionsEffect_show)
  have sent: "map v_recurringEventUpdateType
      (submitted (snd (handleEventUpdate t props res ?s'))) =
      (if shouldShowRecurringEventUpdateOptions ?s' then []
       else [if recurringchecked s then Some thisAndFollowingInstances else None])"
    using scope by (simp add: gate submitted_updateEventHandler)
  from choice gate quiet sent show ?thesis
    by simp
qed

theorem handleEventUpdate_after_recompute_witness:
  "props_recurring exampleProps \<and>
   shouldShowRecurringEventUpdateOptions bothChangedState = False \<and>
   offeredScopes bothChangedState = [thisAndFollowingInstances] \<and>
   map v_recurringEventUpdateType
     (submitted (snd (handleEventUpdate (\<lambda>k. k) exampleProps Data bothChangedState))) =
     [Some thisAndFollowingInstances]"
proof -
  let ?s = "exampleState\<lparr> instanceDatesChanged := True, recurrenceRuleChanged := True \<rparr>"
  have h: "props_recurring exampleProps"
    by (simp add: exampleProps_def)
  have b: "bothChangedState = scopeOptionsEffect ?s"
    by (simp add: bothChangedState_def setChangeFlags_def exampleState_def initialState_def)
  have r: "recurringchecked ?s"
    by (simp add: exampleState_def initialState_def exampleProps_def)
  have f: "instanceDatesChanged ?s \<and> recurrenceRuleChanged ?s"
    by simp
  note sent = handleEventUpdate_after_recompute [OF h, of ?s "\<lambda>k. k" Data,
      THEN conjunct2, THEN conjunct2, THEN conjunct2]
  have m: "map v_recurringEventUpdateType
      (submitted (snd (handleEventUpdate (\<lambda>k. k) exampleProps Data (scopeOptionsEffect ?s)))) =
      [Some thisAndFollowingInstances]"
    using sent r by (simp add: scopeOptionsEffect_show)
  show ?thesis
    using h m by (simp add: b scopeOptionsEffect_offered scopeOptionsEffect_show)
qed

text \<open>
  Claim C2 as stated fails for a recurring event whose recurring box has been
  unchecked before its dates and its rule were edited: the options are hidden, the
  inferred scope is thisAndFollowingInstances, and the update mutation goes out at once
  with no scope in its payload.
\<close>

theorem direct_update_without_scope_when_unchecked:
  "props_recurring exampleProps \<and>
   shouldShowRecurringEventUpdateOptions uncheckedBothChangedState = False \<and>
   recurringEventUpdateType uncheckedBothChangedState = thisAndFollowingInstances \<and>
   map v_recurringEventUpdateType
     (submitted (snd (handleEventUpdate (\<lambda>k. k) exampleProps Data
        uncheckedBothChangedState))) = [None]"
proof -
  let ?s = "exampleState\<lparr> recurringchecked := False,
                          instanceDatesChanged := True, recurrenceRuleChanged := True \<rparr>"
  have b: "uncheckedBothChangedState = scopeOptionsEffect ?s"
    by (simp add: uncheckedBothChangedState_def setChangeFlags_def exampleState_def
        initialState_def)
  have v: "v_recurringEventUpdateType
      (updateEventVariables exampleProps (scopeOptionsEffect ?s)) = None"
    by (simp add: updateEventVariables_def Let_def scopeOptionsEffect_flags)
  have h: "props_recurring exampleProps"
    by (simp add: exampleProps_def)
  show ?thesis
    using h
    by (simp add: b v handleEventUpdate_def submitted_updateEventHandler
        scopeOptionsEffect_show scopeOptionsEffect_type)
qed

section \<open>The payload of an update\<close>

text \<open>
  Claim C3. In every update submission whose recurring flag is set, the
  recurrenceStartDate of the payload is the date-only rendering of the edited instance's
  start date when the selected scope is thisAndFollowingInstances and at least one of
  instanceDatesChanged and recurrenceRuleChanged is true, and the date-only rendering of
  the rule's stored recurrence start date in every other case. The rendering does not
  depend on the time of day, and the two renderings coincide only when the edited
  instance starts on the calendar date on which the stored rule starts.
\<close>

theorem recurrenceStartDate_submitted:
  assumes "recurringchecked s"
  shows "map v_recurrenceStartDate (submitted (snd (updateEventHandler t props res s))) =
      [Some (formatYYYYMMDD
         (if recurringEventUpdateType s = thisAndFollowingInstances \<and>
             (instanceDatesChanged s \<or> recurrenceRuleChanged s)
          then eventStartDate s
          else recurrenceStartDate (recurrenceRuleState s)))] \<and>
    formatYYYYMMDD ((eventStartDate s)\<lparr> msOfDay := ms \<rparr>) = formatYYYYMMDD (eventStartDate s) \<and>
    (formatYYYYMMDD (eventStartDate s) =
       formatYYYYMMDD (recurrenceStartDate (recurrenceRuleState s))) =
      (dateOnly (eventStartDate s) = dateOnly (recurrenceStartDate (recurrenceRuleState s)))"
proof -
  have "v_recurrenceStartDate (updateEventVariables props s) =
      Some (formatYYYYMMDD
         (if recurringEventUpdateType s = thisAndFollowingInstances \<and>
             (instanceDatesChanged s \<or> recurrenceRuleChanged s)
          then eventStartDate s
          else recurrenceStartDate (recurrenceRuleState s)))"
    using assms by (auto simp add: updateEventVariables_def Let_def)
  then show ?thesis
    by (simp add: submitted_updateEventHandler formatYYYYMMDD_msOfDay formatYYYYMMDD_eq_iff)
qed

theorem recurrenceStartDate_submitted_witness:
  "recurringchecked splitState \<and>
   formatYYYYMMDD (recurrenceStartDate (recurrenceRuleState splitState)) = ''2024-01-08'' \<and>
   map v_recurrenceStartDate
     (submitted (snd (updateEventHandler (\<lambda>k. k) exampleProps Data splitState))) =
     [Some ''2024-01-15'']"
proof -
  have h: "recurringchecked splitState"
    by (simp add: splitState_def setChangeFlags_def scopeOptionsEffect_def Let_def
        exampleState_def initialState_def exampleProps_def)
  have c: "recurringEventUpdateType splitState = thisAndFollowingInstances \<and>
      instanceDatesChanged splitState"
    by (simp add: splitState_def setChangeFlags_def scopeOptionsEffect_def Let_def)
  have e: "eventStartDate splitState = editedDate"
    by (simp add: splitState_def setChangeFlags_def scopeOptionsEffect_def Let_def)
  have o: "recurrenceStartDate (recurrenceRuleState splitState) = exampleDate"
    by (simp add: splitState_def setChangeFlags_def scopeOptionsEffect_def Let_def
        exampleState_def initialState_def exampleProps_def)
  have f: "formatYYYYMMDD editedDate = ''2024-01-15''"
    by (simp add: formatYYYYMMDD_def editedDate_def exampleDate_def padStart_def showNat.simps)
  have g: "formatYYYYMMDD exampleDate = ''2024-01-08''"
    by (simp add: formatYYYYMMDD_def exampleDate_def padStart_def showNat.simps)
  show ?thesis
    using h recurrenceStartDate_submitted [OF h, of "\<lambda>k. k" exampleProps Data]
    by (simp add: c e o f g)
qed

text \<open>
  Claim C8, as the code has it. In every update submission whose recurring flag is
  false, each recurrence field of the payload (recurringEventUpdateType,
  recurrenceStartDate, recurrenceEndDate, frequency, weekDays, interval, count,
  weekDayOccurenceInMonth) is undefined; title, description, the public and registrable
  flags, allDay and location are passed from the form unchanged, the two dates as their
  date-only renderings; and the two times are passed from the form unchanged when allDay
  is false and are undefined when allDay is true.
\<close>

theorem nonrecurring_submission_payload:
  assumes "\<not> recurringchecked s"
  shows "submitted (snd (updateEventHandler t props res s)) =
     [\<lparr> v_id = props_id props,
        v_title = title (formState s),
        v_description = eventdescrip (formState s),
        v_isPublic = publicchecked s,
        v_recurring = False,
        v_recurringEventUpdateType = None,
        v_isRegisterable = registrablechecked s,
        v_allDay = alldaychecked s,
        v_startDate = formatYYYYMMDD (eventStartDate s),
        v_endDate = formatYYYYMMDD (eventEndDate s),
        v_location = location (formState s),
        v_startTime = (if alldaychecked s then None else Some (startTime (formState s))),
        v_endTime = (if alldaychecked s then None else Some (endTime (formState s))),
        v_recurrenceStartDate = None,
        v_recurrenceEndDate = None,
        v_frequency = None,
        v_weekDays = None,
        v_interval = None,
        v_count = None,
        v_weekDayOccurenceInMonth = None \<rparr>]"
  using assms
  by (simp add: submitted_updateEventHandler updateEventVariables_def Let_def)

theorem nonrecurring_submission_payload_witness:
  "recurringchecked nonRecurringState = False \<and>
   map v_weekDays
     (submitted (snd (updateEventHandler (\<lambda>k. k) exampleProps Data nonRecurringState))) =
     [None] \<and>
   map v_startTime
     (submitted (snd (updateEventHandler (\<lambda>k. k) exampleProps Data nonRecurringState))) =
     [Some ''09:00:00'']"
proof -
  have h: "\<not> recurringchecked nonRecurringState"
    by (simp add: nonRecurringState_def)
  have a: "alldaychecked nonRecurringState = False"
    by (simp add: nonRecurringState_def exampleState_def initialState_def exampleProps_def)
  have b: "startTime (formState nonRecurringState) = ''09:00:00''"
    by (simp add: nonRecurringState_def exampleState_def initialState_def exampleProps_def
        timeOrDefault_def)
  show ?thesis
    using h nonrecurring_submission_payload [OF h, of "\<lambda>k. k" exampleProps Data]
    by (simp add: a b)
qed

text \<open>
  Claim C8 as stated fails for an all-day event: the form holds a start time, and the
  payload of the non-recurring submission has none.
\<close>

theorem nonrecurring_allDay_startTime_omitted:
  "recurringchecked allDayNonRecurringState = False \<and>
   startTime (formState allDayNonRecurringState) = ''09:00:00'' \<and>
   map v_startTime
     (submitted (snd (updateEventHandler (\<lambda>k. k) exampleProps Data allDayNonRecurringState))) =
     [None]"
  by (simp add: submitted_updateEventHandler updateEventVariables_def Let_def
      allDayNonRecurringState_def exampleState_def initialState_def exampleProps_def
      timeOrDefault_def)

text \<open>
  What the code does with weekDays: with the recurring flag set, the weekDays of the
  form are in the payload exactly when the frequency is WEEKLY, or the frequency is
  MONTHLY and weekDayOccurenceInMonth holds a number other than 0.
\<close>

lemma weekDays_submitted:
  assumes "recurringchecked s"
  shows "map v_weekDays (submitted (snd (updateEventHandler t props res s))) =
     [if frequency (recurrenceRuleState s) = WEEKLY \<or>
         (frequency (recurrenceRuleState s) = MONTHLY \<and>
          weekDayOccurenceInMonth (recurrenceRuleState s) \<noteq> None \<and>
          weekDayOccurenceInMonth (recurrenceRuleState s) \<noteq> Some 0)
      then Some (weekDays (recurrenceRuleState s))
      else None]"
  using assms
  by (auto simp add: submitted_updateEventHandler updateEventVariables_def Let_def
      truthyNumber_def split: option.splits)


section \<open>Registering for the event\<close>

text \<open>
  Claim C10. While isRegistered is true, a call of registerEventHandler invokes no
  mutation, has no other effect, and returns the component state unchanged, whatever
  the mutation would have answered.
\<close>

theorem registerEventHandler_registered_noop:
  assumes "isRegistered s = Some True"
  shows "registerEventHandler props res s = (s, []) \<and>
    registrations (snd (registerEventHandler props res s)) = []"
  using assms by (simp add: registerEventHandler_def)

theorem registerEventHandler_registered_noop_witness:
  "isRegistered exampleState = Some True \<and>
   registerEventHandler exampleProps Data exampleState = (exampleState, []) \<and>
   registerEventHandler exampleProps Data
     (fst (registerEventHandler exampleProps Data (exampleState\<lparr> isRegistered := None \<rparr>))) =
     (fst (registerEventHandler exampleProps Data (exampleState\<lparr> isRegistered := None \<rparr>)), [])"
proof -
  have h: "isRegistered exampleState = Some True"
    unfolding exampleState_def
    by (rule isRegistered_initially [of _ "[''user1'', ''user2'']"])
       (simp_all add: exampleProps_def)
  show ?thesis
    using h registerEventHandler_registered_noop [OF h, of exampleProps Data]
      registerEventHandler_registered_noop [OF isRegistered_after_success, of exampleProps Data]
    by simp
qed

section \<open>The change detector, as specified\<close>

text \<open>
  Claim C5. haveInstanceDatesChanged is true if and only if the start dates or the end
  dates differ as calendar dates, which is to say that their YYYY-MM-DD renderings
  differ; it is false when the edited dates are the original ones, also when only their
  times of day differ; and changing the calendar date of exactly one of the two dates
  makes it true.
\<close>

theorem haveInstanceDatesChanged_date_only:
  "haveInstanceDatesChanged a b c d = (dateOnly a \<noteq> dateOnly c \<or> dateOnly b \<noteq> dateOnly d) \<and>
   haveInstanceDatesChanged a b c d =
     (formatYYYYMMDD a \<noteq> formatYYYYMMDD c \<or> formatYYYYMMDD b \<noteq> formatYYYYMMDD d) \<and>
   haveInstanceDatesChanged a b a b = False \<and>
   haveInstanceDatesChanged a b (a\<lparr> msOfDay := t1 \<rparr>) (b\<lparr> msOfDay := t2 \<rparr>) = False \<and>
   haveInstanceDatesChanged a b c b = (dateOnly a \<noteq> dateOnly c) \<and>
   haveInstanceDatesChanged a b a d = (dateOnly b \<noteq> dateOnly d)"
proof -
  have "haveInstanceDatesChanged a b (a\<lparr> msOfDay := t1 \<rparr>) (b\<lparr> msOfDay := t2 \<rparr>) = False"
    by (simp add: haveInstanceDatesChanged_def dateOnly_def)
  then show ?thesis
    by (simp add: haveInstanceDatesChanged_def formatYYYYMMDD_eq_iff)
qed

theorem haveInstanceDatesChanged_date_only_witness:
  "haveInstanceDatesChanged exampleDate exampleDate exampleDate exampleDate = False \<and>
   haveInstanceDatesChanged exampleDate exampleDate editedDate exampleDate = True \<and>
   haveInstanceDatesChanged exampleDate exampleDate exampleDate editedDate = True"
  using haveInstanceDatesChanged_date_only [of exampleDate exampleDate editedDate exampleDate]
        haveInstanceDatesChanged_date_only [of exampleDate exampleDate exampleDate editedDate]
  by (simp add: dateOnly_def editedDate_def exampleDate_def)

text \<open>
  Claim C6. hasRecurrenceRuleChanged is false on a rule compared with itself; it is
  true whenever exactly one of the two rules is absent; and it is false for two rules
  that agree on frequency, interval, the set of weekDays, recurrenceEndDate, count and
  weekDayOccurenceInMonth, whatever their recurrenceStartDates are.
\<close>

theorem hasRecurrenceRuleChanged_properties:
  assumes "frequency a = frequency b" and "interval a = interval b"
    and "set (weekDays a) = set (weekDays b)"
    and "recurrenceEndDate a = recurrenceEndDate b"
    and "count a = count b"
    and "weekDayOccurenceInMonth a = weekDayOccurenceInMonth b"
  shows "hasRecurrenceRuleChanged (Some r) (Some r) = False \<and>
    hasRecurrenceRuleChanged None (Some r) = True \<and>
    hasRecurrenceRuleChanged (Some r) None = True \<and>
    hasRecurrenceRuleChanged (Some a) (Some b) = False"
  using assms by (simp add: hasRecurrenceRuleChanged_def)

theorem hasRecurrenceRuleChanged_properties_witness:
  "recurrenceStartDate exampleRule \<noteq> recurrenceStartDate shiftedRule \<and>
   weekDays exampleRule \<noteq> weekDays shiftedRule \<and>
   hasRecurrenceRuleChanged (Some exampleRule) (Some shiftedRule) = False \<and>
   hasRecurrenceRuleChanged None (Some exampleRule) = True \<and>
   hasRecurrenceRuleChanged (Some exampleRule) None = True"
proof -
  have w: "weekDays exampleRule = [MONDAY]"
    by (simp add: exampleRule_def exampleState_def initialState_def exampleProps_def
        exampleDate_def)
  have d: "recurrenceStartDate exampleRule = exampleDate"
    by (simp add: exampleRule_def exampleState_def initialState_def exampleProps_def)
  have n: "exampleDate \<noteq> editedDate"
    by (simp add: editedDate_def exampleDate_def)
  have s: "set (weekDays exampleRule) = set (weekDays shiftedRule)"
    by (simp add: shiftedRule_def w)
  show ?thesis
    using hasRecurrenceRuleChanged_properties [of exampleRule shiftedRule exampleRule, OF _ _ s]
    by (simp add: shiftedRule_def w d n)
qed

end
